theory Spec2Isabelle
  imports Main "HOL-Library.Word" "HOL-Library.Multiset"
begin

section \<open>The SQLite store of db/db.go\<close>

text \<open>
  The package keeps three tables in an SQLite database (created by \<open>Migrate\<close>) and
  exposes one Go method per SQL statement. The embedding follows the source statement by
  statement: a table is the list of its rows in insertion order, a method takes the
  database and returns either an error or the database after the statement (queries
  return their result), and the constraints declared in \<open>Migrate\<close> (PRIMARY KEY,
  UNIQUE, FOREIGN KEY with \<open>PRAGMA foreign_keys = ON\<close>) are checked by the two
  insert functions in the order in which SQLite reports them.

  Integers. A Go \<open>uint64\<close> is a 64-bit word. An SQLite INTEGER is a signed 64-bit
  value; it is kept as the 64-bit word of its two's complement and read with \<open>sint\<close>.
  Go's \<open>int\<close> is taken to be 64 bits wide (a 64-bit target), so the conversions
  \<open>int(x)\<close> and \<open>uint64(x)\<close> of the source keep the bits and change the reading.
  The clock behind \<open>CURRENT_TIMESTAMP\<close> is an argument \<open>now\<close> of the methods
  that insert.

  Nil. A Go \<open>[]byte\<close> or pointer argument that is \<open>nil\<close> is bound as NULL; such
  an argument has type \<open>bytes option\<close>, with \<open>None\<close> for \<open>nil\<close>. Every column that
  receives an argument is NOT NULL, so a stored value is never NULL.

  Connections. \<open>Migrate\<close> runs \<open>PRAGMA foreign_keys = ON\<close> once; the setting belongs
  to the connection that ran it, and \<open>database/sql\<close> keeps a pool and may run a later
  statement on another connection, opened with SQLite's default, on which foreign keys
  are not enforced. The one statement this matters for is the insert of a vote package:
  \<open>StoreVotePackage\<close> takes a flag \<open>foreign_keys\<close> that says whether the connection
  running it enforces them.

  Outside the model: failures of the database handle itself (a closed or corrupt file,
  a statement that cannot be prepared), and the contents of keys and signatures, which
  are opaque byte strings here.
\<close>

subsection \<open>Values\<close>

type_synonym uint64 = "64 word"
type_synonym uint8 = "8 word"
type_synonym int64 = "64 word"
type_synonym bytes = "8 word list"
type_synonym datetime = nat

text \<open>
  Modelled from the spec: the declaration of \<open>types.ProcessStatus\<close> and of its
  constants is not among the sources; the spec names the four states
  On, Frozen, ProofGenerating and ProofGenerated.
\<close>

datatype ProcessStatus =
    ProcessStatusOn
  | ProcessStatusFrozen
  | ProcessStatusProofGenerating
  | ProcessStatusProofGenerated

text \<open>
  The errors the methods return. \<open>EngineError m\<close> is an error raised by SQLite with
  message \<open>m\<close>, returned by \<open>stmt.Exec\<close>. \<open>ConvertError\<close> is the error of Go's
  \<open>database/sql\<close> when an argument or a column cannot be converted. Arguments reach a
  driver as \<open>driver.Value\<close>, whose only integer type is \<open>int64\<close>; the default
  converter (\<open>driver.DefaultParameterConverter\<close>, in use because the SQLite driver brings
  none of its own) turns a \<open>uint64\<close> below \<open>2 ^ 63\<close> into that \<open>int64\<close> and
  refuses any other with "uint64 values with high bit set are not supported", so that
  \<open>Exec\<close>, \<open>Query\<close> and \<open>QueryRow\<close> return an error and no statement runs. In the
  other direction \<open>Scan\<close> refuses to store a negative INTEGER in a \<open>uint64\<close>. The
  remaining constructors are the errors the package builds itself with \<open>fmt.Errorf\<close>
  (their text is left out).
\<close>

datatype error =
    EngineError string
  | ConvertError
  | ErrMetaNotInDB
  | ProcessDoesNotExist uint64
  | CanNotStoreVotePackage uint64
  | InitMetaError error
  | UpdateLastSyncBlockNumError error

subsection \<open>Rows and the database\<close>

record process_row =
  proc_id :: int64
  status :: ProcessStatus
  censusRoot :: bytes
  censusSize :: int64
  ethBlockNum :: int64
  resPubStartBlock :: int64
  resPubWindow :: int64
  minParticipation :: int64
  minPositiveVotes :: int64
  proc_type :: int64
  insertedDatetime :: datetime

record votepackage_row =
  indx :: int64
  publicKey :: bytes
  weight :: bytes
  merkleproof :: bytes
  signature :: bytes
  vote :: bytes
  vp_insertedDatetime :: datetime
  processID :: int64

record meta_row =
  meta_id :: int
  chainID :: int64
  lastSyncBlockNum :: int64
  lastUpdate :: datetime

record SQLite =
  processes :: "process_row list"
  votepackages :: "votepackage_row list"
  meta :: "meta_row list"

text \<open>
  A value of this type is a database in which \<open>Migrate\<close> has created the tables.
  \<open>migrated\<close> is the database right after \<open>Migrate\<close> on a new file: three empty
  tables.
\<close>

definition migrated :: SQLite where
  "migrated = \<lparr>processes = [], votepackages = [], meta = []\<rparr>"

subsection \<open>The Go side of a vote package\<close>

text \<open>
  \<open>types.VotePackage\<close> as the two methods use it: the compressed signature (an array
  of 64 bytes, here a byte list; an array is never \<open>nil\<close>), the census proof with the
  index, the public key (a pointer), the weight (a \<open>*big.Int\<close>) and the Merkle proof
  (a \<open>[]byte\<close>), and the ballot (a \<open>[]byte\<close>); \<open>None\<close> is \<open>nil\<close>.
\<close>

record CensusProof =
  Index :: uint64
  PublicKey :: "bytes option"
  Weight :: "int option"
  MerkleProof :: "bytes option"

record VotePackage =
  Signature :: bytes
  CensusProof :: CensusProof
  Vote :: "bytes option"

text \<open>
  \<open>big.Int.Bytes\<close>: the big-endian bytes of the absolute value, none for zero (an
  empty slice, not \<open>nil\<close>). \<open>big.Int.SetBytes\<close>: the unsigned big-endian reading.
\<close>

function nat_bytes :: "nat \<Rightarrow> bytes" where
  "nat_bytes n = (if n = 0 then [] else nat_bytes (n div 256) @ [of_nat (n mod 256)])"
  by pat_completeness auto
termination
  by (relation "measure (\<lambda>n. n)") auto

declare nat_bytes.simps [simp del]

definition Bytes :: "int \<Rightarrow> bytes" where
  "Bytes x = nat_bytes (nat \<bar>x\<bar>)"

definition SetBytes :: "bytes \<Rightarrow> int" where
  "SetBytes bs = int (foldl (\<lambda>a b. a * 256 + unat b) 0 bs)"

subsection \<open>Conversions between Go and SQLite\<close>

text \<open>
  A \<open>uint64\<close> argument of \<open>Exec\<close>, \<open>Query\<close> or \<open>QueryRow\<close> reaches SQLite only
  when it is below \<open>2 ^ 63\<close>; otherwise the call returns \<open>ConvertError\<close> and the
  statement does not run.
\<close>

definition convertible :: "uint64 \<Rightarrow> bool" where
  "convertible u \<longleftrightarrow> u < 0x8000000000000000"

text \<open>\<open>int(x)\<close> for a \<open>uint64\<close> and \<open>uint64(x)\<close> for an \<open>int\<close>: the same 64 bits.\<close>

definition go_int :: "uint64 \<Rightarrow> int64" where
  "go_int u = u"

definition go_uint64 :: "int64 \<Rightarrow> uint64" where
  "go_uint64 i = i"

text \<open>A \<open>uint8\<close> argument is widened.\<close>

definition widen :: "uint8 \<Rightarrow> int64" where
  "widen b = ucast b"

subsection \<open>The two inserts with constraints\<close>

text \<open>
  \<open>INSERT INTO processes\<close>, given the values bound to its placeholders and the time.
  SQLite tests the NOT NULL columns first (only \<open>censusRoot\<close> can be NULL here) and
  then the primary key \<open>id\<close>.
\<close>

definition insert_process ::
  "int64 \<Rightarrow> ProcessStatus \<Rightarrow> bytes option \<Rightarrow> int64 \<Rightarrow> int64 \<Rightarrow> int64 \<Rightarrow> int64 \<Rightarrow> int64 \<Rightarrow> int64
     \<Rightarrow> int64 \<Rightarrow> datetime \<Rightarrow> SQLite \<Rightarrow> error + SQLite" where
  "insert_process id' status' censusRoot' censusSize' ethBlockNum' resPubStartBlock'
     resPubWindow' minParticipation' minPositiveVotes' type' now db =
     (case censusRoot' of
        None \<Rightarrow> Inl (EngineError ''NOT NULL constraint failed: processes.censusRoot'')
      | Some root \<Rightarrow>
          if id' \<in> set (map proc_id (processes db))
          then Inl (EngineError ''UNIQUE constraint failed: processes.id'')
          else Inr (db\<lparr>processes := processes db @
                 [\<lparr>proc_id = id', status = status', censusRoot = root,
                   censusSize = censusSize', ethBlockNum = ethBlockNum',
                   resPubStartBlock = resPubStartBlock', resPubWindow = resPubWindow',
                   minParticipation = minParticipation',
                   minPositiveVotes = minPositiveVotes',
                   proc_type = type', insertedDatetime = now\<rparr>]\<rparr>))"

text \<open>
  \<open>INSERT INTO votepackages\<close>, given whether the connection enforces foreign keys, the
  values bound to the placeholders and the time. SQLite tests the NOT NULL columns in
  the order of the table (\<open>publicKey\<close>, \<open>merkleproof\<close>, \<open>vote\<close> can be NULL here;
  the weight and the signature are never \<open>nil\<close> in the caller), then the primary key
  \<open>indx\<close>, then the unique indexes (that of \<open>merkleproof\<close> before that of
  \<open>publicKey\<close>), each stopping the statement at once; the foreign key is checked when
  the statement ends, on a connection that enforces it.
\<close>

definition insert_votepackage ::
  "bool \<Rightarrow> int64 \<Rightarrow> bytes option \<Rightarrow> bytes \<Rightarrow> bytes option \<Rightarrow> bytes \<Rightarrow> bytes option \<Rightarrow> datetime
     \<Rightarrow> int64 \<Rightarrow> SQLite \<Rightarrow> error + SQLite" where
  "insert_votepackage foreign_keys indx' publicKey' weight' merkleproof' signature' vote' now
     processID' db =
     (case publicKey' of
        None \<Rightarrow> Inl (EngineError ''NOT NULL constraint failed: votepackages.publicKey'')
      | Some pk \<Rightarrow>
     (case merkleproof' of
        None \<Rightarrow> Inl (EngineError ''NOT NULL constraint failed: votepackages.merkleproof'')
      | Some mp \<Rightarrow>
     (case vote' of
        None \<Rightarrow> Inl (EngineError ''NOT NULL constraint failed: votepackages.vote'')
      | Some vt \<Rightarrow>
          if indx' \<in> set (map indx (votepackages db))
          then Inl (EngineError ''UNIQUE constraint failed: votepackages.indx'')
          else if mp \<in> set (map merkleproof (votepackages db))
          then Inl (EngineError ''UNIQUE constraint failed: votepackages.merkleproof'')
          else if pk \<in> set (map publicKey (votepackages db))
          then Inl (EngineError ''UNIQUE constraint failed: votepackages.publicKey'')
          else if foreign_keys \<and> processID' \<notin> set (map proc_id (processes db))
          then Inl (EngineError ''FOREIGN KEY constraint failed'')
          else Inr (db\<lparr>votepackages := votepackages db @
                 [\<lparr>indx = indx', publicKey = pk, weight = weight', merkleproof = mp,
                   signature = signature', vote = vt, vp_insertedDatetime = now,
                   processID = processID'\<rparr>]\<rparr>))))"

subsection \<open>Processes\<close>

definition StoreProcess ::
  "SQLite \<Rightarrow> uint64 \<Rightarrow> bytes option \<Rightarrow> uint64 \<Rightarrow> uint64 \<Rightarrow> uint64 \<Rightarrow> uint64 \<Rightarrow> uint8 \<Rightarrow> uint8 \<Rightarrow> uint8
     \<Rightarrow> datetime \<Rightarrow> error + SQLite" where
  "StoreProcess db id' censusRoot' censusSize' ethBlockNum' resPubStartBlock' resPubWindow'
     minParticipation' minPositiveVotes' typ now =
     (if convertible id' \<and> convertible censusSize' \<and> convertible ethBlockNum'
         \<and> convertible resPubStartBlock' \<and> convertible resPubWindow'
      then insert_process id' ProcessStatusOn censusRoot' censusSize' ethBlockNum'
             resPubStartBlock' resPubWindow' (widen minParticipation')
             (widen minPositiveVotes') (widen typ) now db
      else Inl ConvertError)"

text \<open>\<open>UPDATE processes SET status=? WHERE id=?\<close>\<close>

definition UpdateProcessStatus :: "SQLite \<Rightarrow> uint64 \<Rightarrow> ProcessStatus \<Rightarrow> error + SQLite" where
  "UpdateProcessStatus db id' status' =
     (if convertible id'
      then Inr (db\<lparr>processes :=
                  map (\<lambda>p. if proc_id p = id' then p\<lparr>status := status'\<rparr> else p)
                    (processes db)\<rparr>)
      else Inl ConvertError)"

text \<open>\<open>SELECT status FROM processes WHERE id = ?\<close>, first row.\<close>

definition GetProcessStatus :: "SQLite \<Rightarrow> uint64 \<Rightarrow> error + ProcessStatus" where
  "GetProcessStatus db id' =
     (if convertible id'
      then (case find (\<lambda>p. proc_id p = id') (processes db) of
              None \<Rightarrow> Inl (ProcessDoesNotExist id')
            | Some p \<Rightarrow> Inr (status p))
      else Inl ConvertError)"

text \<open>
  \<open>UPDATE processes SET status = ? WHERE (resPubStartBlock <= ? AND status = ?)\<close>
  with the arguments \<open>ProcessStatusFrozen\<close>, \<open>int(currBlockNum)\<close> and
  \<open>ProcessStatusOn\<close>. The comparison is SQLite's, on signed integers.
\<close>

definition FrozeProcessesByCurrentBlockNum :: "SQLite \<Rightarrow> uint64 \<Rightarrow> error + SQLite" where
  "FrozeProcessesByCurrentBlockNum db currBlockNum =
     Inr (db\<lparr>processes :=
            map (\<lambda>p. if sint (resPubStartBlock p) \<le> sint (go_int currBlockNum)
                        \<and> status p = ProcessStatusOn
                      then p\<lparr>status := ProcessStatusFrozen\<rparr> else p)
              (processes db)\<rparr>)"

subsection \<open>Vote packages\<close>

text \<open>
  \<open>StoreVotePackage\<close>: a \<open>nil\<close> weight becomes \<open>big.NewInt(0)\<close>, the row is
  inserted, and the engine's error with the text "FOREIGN KEY constraint failed" is
  replaced by the package's own error; any other error is returned as it is.
  \<open>foreign_keys\<close> says whether the connection that runs the insert enforces foreign
  keys.
\<close>

definition StoreVotePackage ::
  "SQLite \<Rightarrow> bool \<Rightarrow> uint64 \<Rightarrow> VotePackage \<Rightarrow> datetime \<Rightarrow> error + SQLite" where
  "StoreVotePackage db foreign_keys processID' v now =
     (let w = (case Weight (CensusProof v) of None \<Rightarrow> 0 | Some x \<Rightarrow> x) in
      if convertible (Index (CensusProof v)) \<and> convertible processID'
      then (case insert_votepackage foreign_keys (Index (CensusProof v))
                   (PublicKey (CensusProof v)) (Bytes w) (MerkleProof (CensusProof v))
                   (Signature v) (Vote v) now processID' db of
              Inl err \<Rightarrow>
                if err = EngineError ''FOREIGN KEY constraint failed''
                then Inl (CanNotStoreVotePackage processID')
                else Inl err
            | Inr db' \<Rightarrow> Inr db')
      else Inl ConvertError)"

text \<open>
  One row of the result set scanned into a \<open>types.VotePackage\<close>: the index goes into a
  \<open>uint64\<close>, the weight is rebuilt with \<open>SetBytes\<close>, and the signature is copied
  into the 64-byte array of the package. A column is never NULL, so the public key, the
  proof and the ballot come back as values that are not \<open>nil\<close>.
\<close>

definition vote_of_row :: "votepackage_row \<Rightarrow> VotePackage" where
  "vote_of_row r =
     \<lparr>Signature = take 64 (signature r) @ replicate (64 - length (signature r)) 0,
      CensusProof = \<lparr>Index = go_uint64 (indx r), PublicKey = Some (publicKey r),
                     Weight = Some (SetBytes (weight r)),
                     MerkleProof = Some (merkleproof r)\<rparr>,
      Vote = Some (vote r)\<rparr>"

definition scan_vote :: "votepackage_row \<Rightarrow> error + VotePackage" where
  "scan_vote r = (if sint (indx r) < 0 then Inl ConvertError else Inr (vote_of_row r))"

text \<open>The loop over \<open>rows.Next()\<close>: the first row that fails to scan ends it.\<close>

fun scan_votes :: "votepackage_row list \<Rightarrow> error + VotePackage list" where
  "scan_votes [] = Inr []"
| "scan_votes (r # rs) =
     (case scan_vote r of
        Inl e \<Rightarrow> Inl e
      | Inr v \<Rightarrow> (case scan_votes rs of Inl e \<Rightarrow> Inl e | Inr vs \<Rightarrow> Inr (v # vs)))"

text \<open>\<open>SELECT ... FROM votepackages WHERE processID = ? ORDER BY indx ASC\<close>\<close>

definition ReadVotePackagesByProcessID :: "SQLite \<Rightarrow> uint64 \<Rightarrow> error + VotePackage list" where
  "ReadVotePackagesByProcessID db processID' =
     (if convertible processID'
      then scan_votes (sort_key (\<lambda>r. sint (indx r))
                         (filter (\<lambda>r. processID r = processID') (votepackages db)))
      else Inl ConvertError)"

subsection \<open>The meta table\<close>

text \<open>
  \<open>id INTEGER PRIMARY KEY AUTOINCREMENT\<close>: a new row gets one more than the largest
  id (nothing deletes rows), starting at 1.
\<close>

definition next_meta_id :: "meta_row list \<Rightarrow> int" where
  "next_meta_id rows = fold max (map meta_id rows) 0 + 1"

definition InitMeta :: "SQLite \<Rightarrow> uint64 \<Rightarrow> uint64 \<Rightarrow> datetime \<Rightarrow> error + SQLite" where
  "InitMeta db chainID' lastSyncBlockNum' now =
     (if convertible chainID' \<and> convertible lastSyncBlockNum'
      then Inr (db\<lparr>meta := meta db @
                  [\<lparr>meta_id = next_meta_id (meta db), chainID = chainID',
                    lastSyncBlockNum = lastSyncBlockNum', lastUpdate = now\<rparr>]\<rparr>)
      else Inl (InitMetaError ConvertError))"

text \<open>\<open>UPDATE meta SET lastSyncBlockNum=? WHERE id=?\<close> with \<open>int(lastSyncBlockNum)\<close> and 1.\<close>

definition UpdateLastSyncBlockNum :: "SQLite \<Rightarrow> uint64 \<Rightarrow> error + SQLite" where
  "UpdateLastSyncBlockNum db lastSyncBlockNum' =
     Inr (db\<lparr>meta :=
            map (\<lambda>r. if meta_id r = 1 then r\<lparr>lastSyncBlockNum := go_int lastSyncBlockNum'\<rparr>
                      else r)
              (meta db)\<rparr>)"

text \<open>
  \<open>SELECT lastSyncBlockNum FROM meta WHERE id = 1\<close>, scanned into an \<open>int\<close> and
  converted with \<open>uint64(lastSyncBlockNum)\<close>.
\<close>

definition GetLastSyncBlockNum :: "SQLite \<Rightarrow> error + uint64" where
  "GetLastSyncBlockNum db =
     (case find (\<lambda>r. meta_id r = 1) (meta db) of
        None \<Rightarrow> Inl ErrMetaNotInDB
      | Some r \<Rightarrow> Inr (go_uint64 (lastSyncBlockNum r)))"

subsection \<open>Histories of calls\<close>

text \<open>
  The methods that write, as one datatype, so that statements about every operation and
  about every database the package can build are statements about lists of calls. A call
  that returns an error leaves the database as it was. The flag of
  \<open>CallStoreVotePackage\<close> is the \<open>foreign_keys\<close> of the connection that ran it.
\<close>

datatype call =
    CallStoreProcess uint64 "bytes option" uint64 uint64 uint64 uint64 uint8 uint8 uint8 datetime
  | CallUpdateProcessStatus uint64 ProcessStatus
  | CallFrozeProcessesByCurrentBlockNum uint64
  | CallStoreVotePackage bool uint64 VotePackage datetime
  | CallInitMeta uint64 uint64 datetime
  | CallUpdateLastSyncBlockNum uint64

fun exec :: "SQLite \<Rightarrow> call \<Rightarrow> error + SQLite" where
  "exec db (CallStoreProcess i cr cs eb rs rw mp mv ty now) =
     StoreProcess db i cr cs eb rs rw mp mv ty now"
| "exec db (CallUpdateProcessStatus i s) = UpdateProcessStatus db i s"
| "exec db (CallFrozeProcessesByCurrentBlockNum b) = FrozeProcessesByCurrentBlockNum db b"
| "exec db (CallStoreVotePackage fk pid v now) = StoreVotePackage db fk pid v now"
| "exec db (CallInitMeta c n now) = InitMeta db c n now"
| "exec db (CallUpdateLastSyncBlockNum n) = UpdateLastSyncBlockNum db n"

definition after :: "SQLite \<Rightarrow> call \<Rightarrow> SQLite" where
  "after db c = (case exec db c of Inl e \<Rightarrow> db | Inr db' \<Rightarrow> db')"

definition history :: "call list \<Rightarrow> SQLite" where
  "history cs = foldl after migrated cs"

text \<open>
  What the constraints and the argument conversion keep true of every table: primary
  keys are unique and the integers that came from a \<open>uint64\<close> are not negative.
\<close>

definition wf :: "SQLite \<Rightarrow> bool" where
  "wf db \<longleftrightarrow>
     distinct (map proc_id (processes db)) \<and>
     list_all (\<lambda>p. 0 \<le> sint (proc_id p) \<and> 0 \<le> sint (resPubStartBlock p)) (processes db) \<and>
     distinct (map indx (votepackages db)) \<and>
     list_all (\<lambda>r. 0 \<le> sint (indx r)) (votepackages db)"

text \<open>
  Every vote package points to a process: this is kept as long as every insert of a vote
  package runs on a connection that enforces foreign keys.
\<close>

definition references_kept :: "SQLite \<Rightarrow> bool" where
  "references_kept db \<longleftrightarrow>
     list_all (\<lambda>r. processID r \<in> set (map proc_id (processes db))) (votepackages db)"

fun enforcing :: "call \<Rightarrow> bool" where
  "enforcing (CallStoreVotePackage foreign_keys pid v now) = foreign_keys"
| "enforcing c = True"

subsection \<open>Test data\<close>

text \<open>
  The data of the package's tests (\<open>db_test.go\<close>): process 123 with the census
  root "censusRoot", and a vote package with a given index, public key and census
  proof, weight 1 and the ballot "test".
\<close>

definition test_censusRoot :: bytes where
  "test_censusRoot = [99, 101, 110, 115, 117, 115, 82, 111, 111, 116]"

definition test_process :: call where
  "test_process = CallStoreProcess 123 (Some test_censusRoot) 100 10 20 20 60 20 1 0"

definition test_vote :: "uint64 \<Rightarrow> bytes \<Rightarrow> bytes \<Rightarrow> VotePackage" where
  "test_vote i pk proof' =
     \<lparr>Signature = replicate 64 0,
      CensusProof = \<lparr>Index = i, PublicKey = Some pk, Weight = Some 1,
                     MerkleProof = Some proof'\<rparr>,
      Vote = Some [116, 101, 115, 116]\<rparr>"

section \<open>Signed and unsigned readings of a 64-bit word\<close>

lemma shift_mod_cases:
  fixes x K :: int
  assumes "0 \<le> x" "x < 2 * K"
  shows "(x + K) mod (2 * K) - K = (if x < K then x else x - 2 * K)"
proof (cases "x < K")
  case True
  with assms have "(x + K) mod (2 * K) = x + K"
    by (intro mod_pos_pos_trivial) linarith+
  with True show ?thesis by simp
next
  case False
  have "(x + K) mod (2 * K) = (x - K + 2 * K) mod (2 * K)"
    by (simp add: algebra_simps)
  also have "\<dots> = (x - K) mod (2 * K)"
    by (rule mod_add_self2)
  also from False assms have "\<dots> = x - K"
    by (intro mod_pos_pos_trivial) linarith+
  finally show ?thesis using False by simp
qed

lemma sint64_cases:
  "sint (w :: 64 word) = (if uint w < 2 ^ 63 then uint w else uint w - 2 ^ 64)"
proof -
  have "sint w = (uint w + 2 ^ 63) mod (2 * 2 ^ 63) - 2 ^ 63"
    by (simp add: sint_uint signed_take_bit_eq_take_bit_shift take_bit_eq_mod)
  moreover have "0 \<le> uint w" "uint w < 2 * 2 ^ 63"
    using uint_bounded [of w] by simp_all
  ultimately show ?thesis
    using shift_mod_cases [of "uint w" "2 ^ 63"] by simp
qed

lemma convertible_iff_uint: "convertible u \<longleftrightarrow> uint u < 2 ^ 63"
  by (simp add: convertible_def word_less_def)

lemma sint_nonneg_iff: "0 \<le> sint (u :: 64 word) \<longleftrightarrow> uint u < 2 ^ 63"
proof -
  have "uint u < 2 ^ 64" using uint_bounded [of u] by simp
  then show ?thesis by (simp add: sint64_cases)
qed

lemma convertible_iff_sint: "convertible u \<longleftrightarrow> 0 \<le> sint u"
  by (simp only: convertible_iff_uint sint_nonneg_iff)

lemma sint_nonneg_eq_uint: "0 \<le> sint (u :: 64 word) \<Longrightarrow> sint u = uint u"
proof -
  assume "0 \<le> sint u"
  then have "uint u < 2 ^ 63" by (simp only: sint_nonneg_iff)
  then show ?thesis by (simp add: sint64_cases)
qed

lemma sint_le_nonneg:
  "0 \<le> sint (a :: 64 word) \<Longrightarrow> 0 \<le> sint b \<Longrightarrow> sint a \<le> sint b \<longleftrightarrow> a \<le> b"
  by (simp add: sint_nonneg_eq_uint word_le_def)


lemma sint_neg_not_above:
  "\<not> convertible b \<Longrightarrow> 0 \<le> sint (a :: 64 word) \<Longrightarrow> \<not> sint a \<le> sint b"
  by (simp add: convertible_iff_sint)

section \<open>Properties of the process table\<close>

lemma find_append_first:
  "find P (xs @ ys) = (case find P xs of None \<Rightarrow> find P ys | Some x \<Rightarrow> Some x)"
  by (induction xs) auto

lemma find_absent_key: "k \<notin> set (map f xs) \<Longrightarrow> find (\<lambda>x. f x = k) xs = None"
  by (induction xs) auto

lemma map_absent_key:
  "k \<notin> set (map f xs) \<Longrightarrow> map (\<lambda>x. if f x = k then g x else x) xs = xs"
  by (induction xs) auto

lemma StoreProcess_Inr:
  "StoreProcess db i cr cs eb rs rw mp mv ty now = Inr db' \<Longrightarrow>
     i \<notin> set (map proc_id (processes db)) \<and> convertible i \<and> convertible rs \<and>
     (\<exists>root. cr = Some root \<and>
     db' = db\<lparr>processes := processes db @
             [\<lparr>proc_id = i, status = ProcessStatusOn, censusRoot = root, censusSize = cs,
               ethBlockNum = eb, resPubStartBlock = rs, resPubWindow = rw,
               minParticipation = widen mp, minPositiveVotes = widen mv,
               proc_type = widen ty, insertedDatetime = now\<rparr>]\<rparr>)"
  by (simp add: StoreProcess_def insert_process_def split: if_splits option.splits)

lemma StoreProcess_succeeds:
  "i \<notin> set (map proc_id (processes db)) \<Longrightarrow> convertible i \<Longrightarrow> convertible cs \<Longrightarrow>
   convertible eb \<Longrightarrow> convertible rs \<Longrightarrow> convertible rw \<Longrightarrow>
     \<exists>db'. StoreProcess db i (Some root) cs eb rs rw mp mv ty now = Inr db'"
  by (simp add: StoreProcess_def insert_process_def)

text \<open>
  C2. After a successful \<open>StoreProcess\<close> with identifier \<open>i\<close>, \<open>GetProcessStatus\<close> of
  \<open>i\<close> returns \<open>ProcessStatusOn\<close>. (\<open>StoreProcess_succeeds\<close>: the call succeeds when
  \<open>i\<close> is not stored yet, the integer arguments are below \<open>2 ^ 63\<close> and the census
  root is not \<open>nil\<close>.)
\<close>

theorem StoreProcess_status_On:
  "StoreProcess db i cr cs eb rs rw mp mv ty now = Inr db' \<Longrightarrow>
     GetProcessStatus db' i = Inr ProcessStatusOn"
  by (drule StoreProcess_Inr)
     (auto simp: GetProcessStatus_def find_append_first find_absent_key)

theorem StoreProcess_status_On_witness:
  "StoreProcess migrated 123 (Some test_censusRoot) 100 10 20 20 60 20 1 0
     = Inr (history [test_process])
   \<and> GetProcessStatus (history [test_process]) 123 = Inr ProcessStatusOn"
proof -
  have h: "StoreProcess migrated 123 (Some test_censusRoot) 100 10 20 20 60 20 1 0
             = Inr (history [test_process])"
    by (simp add: history_def test_process_def after_def StoreProcess_def insert_process_def
          migrated_def convertible_def)
  show ?thesis using h StoreProcess_status_On [OF h] by simp
qed

text \<open>
  C5 (as amended). When \<open>i\<close> is not the identifier of a stored process,
  \<open>UpdateProcessStatus\<close> returns no error and the same database if \<open>i\<close> is below
  \<open>2 ^ 63\<close>, and the conversion error (the database is untouched) otherwise.
\<close>

theorem UpdateProcessStatus_absent:
  "i \<notin> set (map proc_id (processes db)) \<Longrightarrow>
     UpdateProcessStatus db i s = (if convertible i then Inr db else Inl ConvertError)"
  by (simp add: UpdateProcessStatus_def map_absent_key)

theorem UpdateProcessStatus_absent_witness:
  "7 \<notin> set (map proc_id (processes (history [test_process])))
   \<and> UpdateProcessStatus (history [test_process]) 7 ProcessStatusFrozen
      = Inr (history [test_process])"
proof -
  have h: "7 \<notin> set (map proc_id (processes (history [test_process])))"
    by (simp add: history_def test_process_def after_def StoreProcess_def insert_process_def
          migrated_def convertible_def)
  show ?thesis using h UpdateProcessStatus_absent [OF h, of ProcessStatusFrozen]
    by (simp add: convertible_def)
qed

text \<open>
  The claim as stated fails: the identifier \<open>2 ^ 63\<close> is not stored in the new
  database, and \<open>UpdateProcessStatus\<close> returns an error for it.
\<close>

theorem UpdateProcessStatus_absent_counterexample:
  "0x8000000000000000 \<notin> set (map proc_id (processes migrated))
   \<and> UpdateProcessStatus migrated 0x8000000000000000 ProcessStatusFrozen = Inl ConvertError"
  by (simp add: UpdateProcessStatus_def migrated_def convertible_def)

subsection \<open>Freezing by block number\<close>

lemma FrozeProcessesByCurrentBlockNum_below:
  assumes "convertible b"
    and "list_all (\<lambda>p. 0 \<le> sint (resPubStartBlock p)) (processes db)"
  shows "FrozeProcessesByCurrentBlockNum db b =
     Inr (db\<lparr>processes :=
            map (\<lambda>p. if status p = ProcessStatusOn \<and> resPubStartBlock p \<le> b
                      then p\<lparr>status := ProcessStatusFrozen\<rparr> else p)
              (processes db)\<rparr>)"
proof -
  have "0 \<le> sint b" using assms(1) by (simp add: convertible_iff_sint)
  then have "\<And>p. p \<in> set (processes db) \<Longrightarrow>
      (sint (resPubStartBlock p) \<le> sint b) = (resPubStartBlock p \<le> b)"
    using assms(2) by (simp add: list_all_iff sint_le_nonneg)
  then have "map (\<lambda>p. if sint (resPubStartBlock p) \<le> sint b \<and> status p = ProcessStatusOn
                        then p\<lparr>status := ProcessStatusFrozen\<rparr> else p) (processes db)
           = map (\<lambda>p. if status p = ProcessStatusOn \<and> resPubStartBlock p \<le> b
                        then p\<lparr>status := ProcessStatusFrozen\<rparr> else p) (processes db)"
    by (intro map_cong) auto
  then show ?thesis
    by (simp add: FrozeProcessesByCurrentBlockNum_def go_int_def)
qed

lemma FrozeProcessesByCurrentBlockNum_top_bit:
  assumes "\<not> convertible b"
    and "list_all (\<lambda>p. 0 \<le> sint (resPubStartBlock p)) (processes db)"
  shows "FrozeProcessesByCurrentBlockNum db b = Inr db"
proof -
  have "\<And>p. p \<in> set (processes db) \<Longrightarrow> \<not> sint (resPubStartBlock p) \<le> sint b"
    using assms by (simp add: list_all_iff sint_neg_not_above)
  then have "map (\<lambda>p. if sint (resPubStartBlock p) \<le> sint b \<and> status p = ProcessStatusOn
                        then p\<lparr>status := ProcessStatusFrozen\<rparr> else p) (processes db)
           = map (\<lambda>p. p) (processes db)"
    by (intro map_cong) auto
  then show ?thesis
    by (simp add: FrozeProcessesByCurrentBlockNum_def go_int_def)
qed

lemma FrozeProcessesByCurrentBlockNum_idem:
  assumes "FrozeProcessesByCurrentBlockNum db b = Inr db'"
  shows "FrozeProcessesByCurrentBlockNum db' b = Inr db'"
proof -
  have "map ((\<lambda>p. if sint (resPubStartBlock p) \<le> sint b \<and> status p = ProcessStatusOn
                        then p\<lparr>status := ProcessStatusFrozen\<rparr> else p) \<circ>
             (\<lambda>p. if sint (resPubStartBlock p) \<le> sint b \<and> status p = ProcessStatusOn
                        then p\<lparr>status := ProcessStatusFrozen\<rparr> else p)) ps
        = map (\<lambda>p. if sint (resPubStartBlock p) \<le> sint b \<and> status p = ProcessStatusOn
                        then p\<lparr>status := ProcessStatusFrozen\<rparr> else p) ps" for ps
    by (intro map_cong) auto
  with assms show ?thesis
    by (auto simp: FrozeProcessesByCurrentBlockNum_def go_int_def)
qed

text \<open>
  The run of \<open>TestFrozeProcessesByCurrentBlockNum\<close>: ten processes with
  \<open>resPubStartBlock\<close> 20 to 29, all on; at block 25 the six up to 25 are frozen, four
  stay on, and a second call changes nothing.
\<close>

lemma test_FrozeProcessesByCurrentBlockNum:
  "(let db = history (map (\<lambda>k. CallStoreProcess (123 + k) (Some test_censusRoot) 100 10
                               (20 + k) 20 60 20 1 0)
                 [0, 1, 2, 3, 4, 5, 6, 7, 8, 9])
    in length (filter (\<lambda>p. status p = ProcessStatusOn) (processes db)) = 10 \<and>
       (case FrozeProcessesByCurrentBlockNum db 25 of
          Inl e \<Rightarrow> False
        | Inr db' \<Rightarrow>
            map (\<lambda>p. (proc_id p, status p)) (processes db')
              = [(123, ProcessStatusFrozen), (124, ProcessStatusFrozen),
                 (125, ProcessStatusFrozen), (126, ProcessStatusFrozen),
                 (127, ProcessStatusFrozen), (128, ProcessStatusFrozen),
                 (129, ProcessStatusOn), (130, ProcessStatusOn),
                 (131, ProcessStatusOn), (132, ProcessStatusOn)] \<and>
            FrozeProcessesByCurrentBlockNum db' 25 = Inr db'))"
  by (simp add: history_def after_def StoreProcess_def insert_process_def migrated_def
        convertible_def widen_def FrozeProcessesByCurrentBlockNum_def go_int_def Let_def)

text \<open>
  C1. The claim holds for block numbers below \<open>2 ^ 63\<close>
  (\<open>FrozeProcessesByCurrentBlockNum_below\<close>). At \<open>2 ^ 63\<close> the conversion
  \<open>int(currBlockNum)\<close> gives a negative number, no row satisfies
  \<open>resPubStartBlock <= ?\<close> and nothing is frozen: the process 123 of the package's own
  test, with \<open>resPubStartBlock\<close> 20 and status \<open>ProcessStatusOn\<close>, stays
  \<open>ProcessStatusOn\<close>.
\<close>

theorem FrozeProcessesByCurrentBlockNum_at_2_63:
  "map (\<lambda>p. (proc_id p, status p, resPubStartBlock p)) (processes (history [test_process]))
     = [(123, ProcessStatusOn, 20)]
   \<and> (20 :: uint64) \<le> 0x8000000000000000
   \<and> FrozeProcessesByCurrentBlockNum (history [test_process]) 0x8000000000000000
     = Inr (history [test_process])
   \<and> GetProcessStatus (history [test_process]) 123 = Inr ProcessStatusOn"
  by (simp add: history_def test_process_def after_def StoreProcess_def insert_process_def
        migrated_def convertible_def FrozeProcessesByCurrentBlockNum_def go_int_def
        GetProcessStatus_def)

section \<open>Properties of the checkpoint\<close>

lemma InitMeta_Inr:
  "InitMeta db c n now = Inr db' \<Longrightarrow>
     convertible c \<and> convertible n \<and>
     db' = db\<lparr>meta := meta db @ [\<lparr>meta_id = next_meta_id (meta db), chainID = c,
                                    lastSyncBlockNum = n, lastUpdate = now\<rparr>]\<rparr>"
  by (simp add: InitMeta_def split: if_splits)

lemma InitMeta_succeeds:
  "convertible c \<Longrightarrow> convertible n \<Longrightarrow> \<exists>db'. InitMeta db c n now = Inr db'"
  by (simp add: InitMeta_def)

lemma find_map_update:
  "find (\<lambda>r. meta_id r = k) (map (\<lambda>r. if meta_id r = k then r\<lparr>lastSyncBlockNum := x\<rparr> else r) rs)
     = map_option (\<lambda>r. r\<lparr>lastSyncBlockNum := x\<rparr>) (find (\<lambda>r. meta_id r = k) rs)"
  by (induction rs) auto

lemma GetLastSyncBlockNum_Update:
  "UpdateLastSyncBlockNum db m = Inr db' \<Longrightarrow> GetLastSyncBlockNum db = Inr n \<Longrightarrow>
     GetLastSyncBlockNum db' = Inr m"
  by (auto simp: UpdateLastSyncBlockNum_def GetLastSyncBlockNum_def find_map_update
        go_int_def go_uint64_def split: option.splits)

text \<open>
  C7. While the meta table is empty (no \<open>InitMeta\<close> yet), \<open>GetLastSyncBlockNum\<close>
  fails with \<open>ErrMetaNotInDB\<close>; after a first successful \<open>InitMeta\<close> with block
  number \<open>n\<close> it returns \<open>n\<close>; and \<open>UpdateLastSyncBlockNum\<close> with \<open>m\<close> then
  succeeds, for every \<open>m\<close>, and \<open>GetLastSyncBlockNum\<close> returns \<open>m\<close>.
\<close>

theorem meta_checkpoint:
  assumes "meta db = []"
  shows "GetLastSyncBlockNum db = Inl ErrMetaNotInDB \<and>
         (\<forall>db'. InitMeta db c n now = Inr db' \<longrightarrow>
            GetLastSyncBlockNum db' = Inr n \<and>
            (\<exists>db''. UpdateLastSyncBlockNum db' m = Inr db'' \<and>
                    GetLastSyncBlockNum db'' = Inr m))"
proof (intro conjI allI impI)
  show "GetLastSyncBlockNum db = Inl ErrMetaNotInDB"
    using assms by (simp add: GetLastSyncBlockNum_def)
next
  fix db' assume init: "InitMeta db c n now = Inr db'"
  then have db': "db' = db\<lparr>meta := [\<lparr>meta_id = 1, chainID = c,
                                      lastSyncBlockNum = n, lastUpdate = now\<rparr>]\<rparr>"
    using assms by (auto dest!: InitMeta_Inr simp: next_meta_id_def)
  then show get: "GetLastSyncBlockNum db' = Inr n"
    by (simp add: GetLastSyncBlockNum_def go_uint64_def)
  obtain db'' where upd: "UpdateLastSyncBlockNum db' m = Inr db''"
    by (simp add: UpdateLastSyncBlockNum_def)
  from upd get have "GetLastSyncBlockNum db'' = Inr m"
    by (rule GetLastSyncBlockNum_Update)
  with upd show "\<exists>db''. UpdateLastSyncBlockNum db' m = Inr db'' \<and>
                   GetLastSyncBlockNum db'' = Inr m"
    by blast
qed

theorem meta_checkpoint_witness:
  "meta migrated = []
   \<and> GetLastSyncBlockNum migrated = Inl ErrMetaNotInDB
   \<and> InitMeta migrated 42 0 0 = Inr (history [CallInitMeta 42 0 0])
   \<and> GetLastSyncBlockNum (history [CallInitMeta 42 0 0]) = Inr 0
   \<and> (\<exists>db''. UpdateLastSyncBlockNum (history [CallInitMeta 42 0 0]) 1234 = Inr db'' \<and>
              GetLastSyncBlockNum db'' = Inr 1234)"
proof -
  have e: "meta migrated = []" by (simp add: migrated_def)
  have i: "InitMeta migrated 42 0 0 = Inr (history [CallInitMeta 42 0 0])"
    by (simp add: history_def after_def InitMeta_def convertible_def)
  show ?thesis
    using e i meta_checkpoint [OF e, of 42 0 0 1234] by simp
qed

lemma no_InitMeta_meta_empty:
  "list_all (\<lambda>c. case c of CallInitMeta _ _ _ \<Rightarrow> False | _ \<Rightarrow> True) cs \<Longrightarrow> meta db = [] \<Longrightarrow>
     meta (foldl after db cs) = []"
proof (induction cs arbitrary: db)
  case Nil
  then show ?case by simp
next
  case (Cons c cs)
  from Cons.prems have "meta (after db c) = []"
    by (cases c)
      (auto simp: after_def StoreProcess_def insert_process_def UpdateProcessStatus_def
         FrozeProcessesByCurrentBlockNum_def StoreVotePackage_def insert_votepackage_def
         UpdateLastSyncBlockNum_def Let_def split: if_splits sum.splits option.splits)
  with Cons show ?case by simp
qed

section \<open>What the calls leave alone\<close>

lemma processes_after:
  assumes "i < length (processes db)"
  shows "i < length (processes (after db c)) \<and>
         processes (after db c) ! i =
           (processes db ! i)\<lparr>status := status (processes (after db c) ! i)\<rparr>"
proof (cases c)
  case (CallStoreProcess i' cr cs eb rs rw mp mv ty now)
  with assms show ?thesis
    by (simp add: after_def StoreProcess_def insert_process_def nth_append
          split: option.splits)
next
  case (CallUpdateProcessStatus i' s)
  with assms show ?thesis
    by (simp add: after_def UpdateProcessStatus_def)
next
  case (CallFrozeProcessesByCurrentBlockNum b)
  with assms show ?thesis
    by (simp add: after_def FrozeProcessesByCurrentBlockNum_def)
next
  case (CallStoreVotePackage fk pid v now)
  with assms show ?thesis
    by (simp add: after_def StoreVotePackage_def insert_votepackage_def Let_def
          split: option.splits)
next
  case (CallInitMeta x n now)
  with assms show ?thesis
    by (simp add: after_def InitMeta_def)
next
  case (CallUpdateLastSyncBlockNum n)
  with assms show ?thesis
    by (simp add: after_def UpdateLastSyncBlockNum_def)
qed

text \<open>
  C8. Whatever calls follow, the \<open>i\<close>-th row of the process table is still there and
  differs from what it was in its status at most: \<open>id\<close>, \<open>censusRoot\<close>,
  \<open>censusSize\<close>, \<open>ethBlockNum\<close>, \<open>resPubStartBlock\<close>, \<open>resPubWindow\<close>,
  \<open>minParticipation\<close>, \<open>minPositiveVotes\<close>, \<open>type\<close> and the insertion time
  are those it was inserted with.
\<close>

theorem process_fields_immutable:
  "i < length (processes db) \<Longrightarrow>
     i < length (processes (foldl after db cs)) \<and>
     processes (foldl after db cs) ! i =
       (processes db ! i)\<lparr>status := status (processes (foldl after db cs) ! i)\<rparr>"
proof (induction cs arbitrary: db)
  case Nil
  then show ?case by simp
next
  case (Cons c cs)
  let ?db1 = "after db c" and ?db2 = "foldl after (after db c) cs"
  from Cons.prems have 1: "i < length (processes ?db1)"
    and 2: "processes ?db1 ! i = (processes db ! i)\<lparr>status := status (processes ?db1 ! i)\<rparr>"
    using processes_after [of i db c] by blast+
  from Cons.IH [OF 1] have 3: "i < length (processes ?db2)"
    and 4: "processes ?db2 ! i = (processes ?db1 ! i)\<lparr>status := status (processes ?db2 ! i)\<rparr>"
    by blast+
  have "processes ?db2 ! i = (processes db ! i)\<lparr>status := status (processes ?db2 ! i)\<rparr>"
    by (subst 4, subst 2) simp
  with 3 show ?case by simp
qed

lemma process_fields_explicit:
  "p' = p\<lparr>status := s\<rparr> \<Longrightarrow>
     proc_id p' = proc_id p \<and> censusRoot p' = censusRoot p \<and> censusSize p' = censusSize p \<and>
     ethBlockNum p' = ethBlockNum p \<and> resPubStartBlock p' = resPubStartBlock p \<and>
     resPubWindow p' = resPubWindow p \<and> minParticipation p' = minParticipation p \<and>
     minPositiveVotes p' = minPositiveVotes p \<and> proc_type p' = proc_type p \<and>
     insertedDatetime p' = insertedDatetime p"
  by simp

theorem process_fields_immutable_witness:
  "0 < length (processes (history [test_process]))
   \<and> 0 < length (processes (foldl after (history [test_process])
            [CallUpdateProcessStatus 123 ProcessStatusProofGenerating,
             CallFrozeProcessesByCurrentBlockNum 25]))
   \<and> processes (foldl after (history [test_process])
            [CallUpdateProcessStatus 123 ProcessStatusProofGenerating,
             CallFrozeProcessesByCurrentBlockNum 25]) ! 0
      = (processes (history [test_process]) ! 0)\<lparr>status := ProcessStatusProofGenerating\<rparr>"
proof -
  have h: "0 < length (processes (history [test_process]))"
    by (simp add: history_def test_process_def after_def StoreProcess_def insert_process_def
          migrated_def convertible_def)
  have s: "status (processes (foldl after (history [test_process])
            [CallUpdateProcessStatus 123 ProcessStatusProofGenerating,
             CallFrozeProcessesByCurrentBlockNum 25]) ! 0) = ProcessStatusProofGenerating"
    by (simp add: history_def test_process_def after_def StoreProcess_def insert_process_def
          migrated_def convertible_def UpdateProcessStatus_def
          FrozeProcessesByCurrentBlockNum_def)
  show ?thesis
    using h process_fields_immutable [OF h,
        of "[CallUpdateProcessStatus 123 ProcessStatusProofGenerating,
             CallFrozeProcessesByCurrentBlockNum 25]"]
    by (simp only: s)
qed

section \<open>Properties of the vote packages\<close>

subsection \<open>The test data in the tables\<close>

lemma history_test_process:
  "history [test_process] =
     \<lparr>processes = [\<lparr>proc_id = 123, status = ProcessStatusOn, censusRoot = test_censusRoot,
         censusSize = 100, ethBlockNum = 10, resPubStartBlock = 20, resPubWindow = 20,
         minParticipation = 60, minPositiveVotes = 20, proc_type = 1,
         insertedDatetime = 0\<rparr>],
      votepackages = [], meta = []\<rparr>"
  by (simp add: history_def test_process_def after_def StoreProcess_def insert_process_def
        migrated_def convertible_def widen_def)

lemma Bytes_1: "Bytes 1 = [1]"
  by (simp add: Bytes_def nat_bytes.simps)

lemma Bytes_0: "Bytes 0 = []"
  by (simp add: Bytes_def nat_bytes.simps)

lemma history_test_vote:
  "history [test_process, CallStoreVotePackage True 123 (test_vote 0 [1] [2]) 0] =
     \<lparr>processes = [\<lparr>proc_id = 123, status = ProcessStatusOn, censusRoot = test_censusRoot,
         censusSize = 100, ethBlockNum = 10, resPubStartBlock = 20, resPubWindow = 20,
         minParticipation = 60, minPositiveVotes = 20, proc_type = 1,
         insertedDatetime = 0\<rparr>],
      votepackages = [\<lparr>indx = 0, publicKey = [1], weight = [1], merkleproof = [2],
         signature = replicate 64 0, vote = [116, 101, 115, 116],
         vp_insertedDatetime = 0, processID = 123\<rparr>],
      meta = []\<rparr>" (is "_ = ?rhs")
proof -
  have "history [test_process, CallStoreVotePackage True 123 (test_vote 0 [1] [2]) 0]
      = after (history [test_process]) (CallStoreVotePackage True 123 (test_vote 0 [1] [2]) 0)"
    by (simp add: history_def)
  also have "\<dots> = ?rhs"
    by (simp only: history_test_process)
       (simp add: after_def StoreVotePackage_def insert_votepackage_def test_vote_def
          convertible_def Bytes_1)
  finally show ?thesis .
qed


subsection \<open>Appending\<close>

lemma StoreVotePackage_Inr:
  "StoreVotePackage db fk pid v now = Inr db' \<Longrightarrow>
     convertible (Index (CensusProof v)) \<and> convertible pid \<and>
     Index (CensusProof v) \<notin> set (map indx (votepackages db)) \<and>
     (fk \<longrightarrow> pid \<in> set (map proc_id (processes db))) \<and>
     (\<exists>pk mp vt.
        PublicKey (CensusProof v) = Some pk \<and> MerkleProof (CensusProof v) = Some mp \<and>
        Vote v = Some vt \<and>
        mp \<notin> set (map merkleproof (votepackages db)) \<and>
        pk \<notin> set (map publicKey (votepackages db)) \<and>
        db' = db\<lparr>votepackages := votepackages db @
             [\<lparr>indx = Index (CensusProof v), publicKey = pk,
               weight = Bytes (case Weight (CensusProof v) of None \<Rightarrow> 0 | Some x \<Rightarrow> x),
               merkleproof = mp, signature = Signature v,
               vote = vt, vp_insertedDatetime = now, processID = pid\<rparr>]\<rparr>)"
  by (simp add: StoreVotePackage_def insert_votepackage_def Let_def
        split: if_splits sum.splits option.splits)

lemma StoreVotePackage_succeeds:
  "convertible (Index (CensusProof v)) \<Longrightarrow> convertible pid \<Longrightarrow>
   PublicKey (CensusProof v) = Some pk \<Longrightarrow> MerkleProof (CensusProof v) = Some mp \<Longrightarrow>
   Vote v = Some vt \<Longrightarrow>
   Index (CensusProof v) \<notin> set (map indx (votepackages db)) \<Longrightarrow>
   mp \<notin> set (map merkleproof (votepackages db)) \<Longrightarrow>
   pk \<notin> set (map publicKey (votepackages db)) \<Longrightarrow>
   (fk \<longrightarrow> pid \<in> set (map proc_id (processes db))) \<Longrightarrow>
     \<exists>db'. StoreVotePackage db fk pid v now = Inr db'"
  by (simp add: StoreVotePackage_def insert_votepackage_def Let_def)

text \<open>
  On a connection that does not enforce foreign keys the package of the test is stored
  although process 123 does not exist.
\<close>

lemma StoreVotePackage_not_enforced:
  "StoreVotePackage migrated False 123 (test_vote 1 [1] [2]) 0 =
     Inr (migrated\<lparr>votepackages :=
            [\<lparr>indx = 1, publicKey = [1], weight = [1], merkleproof = [2],
              signature = replicate 64 0, vote = [116, 101, 115, 116],
              vp_insertedDatetime = 0, processID = 123\<rparr>]\<rparr>)"
  by (simp add: StoreVotePackage_def insert_votepackage_def test_vote_def migrated_def
        convertible_def Bytes_1)

text \<open>
  C3 (as amended). When \<open>pid\<close> is not the identifier of a stored process,
  \<open>StoreVotePackage\<close>, run on a connection that enforces foreign keys, returns an error
  and the database stays as it was. The error is the first that applies of: the
  conversion error, when the index or \<open>pid\<close> is \<open>2 ^ 63\<close> or more; the engine's NOT NULL
  error for the public key, the proof or the ballot, whichever is \<open>nil\<close> first; the
  engine's UNIQUE error for the index, the proof or the public key, whichever is stored
  already first; and, when none of these applies, the package's own
  \<open>CanNotStoreVotePackage pid\<close>.
\<close>

theorem StoreVotePackage_no_process:
  assumes "pid \<notin> set (map proc_id (processes db))"
  shows "StoreVotePackage db True pid v now =
           Inl (if \<not> (convertible (Index (CensusProof v)) \<and> convertible pid)
                then ConvertError
                else if PublicKey (CensusProof v) = None
                then EngineError ''NOT NULL constraint failed: votepackages.publicKey''
                else if MerkleProof (CensusProof v) = None
                then EngineError ''NOT NULL constraint failed: votepackages.merkleproof''
                else if Vote v = None
                then EngineError ''NOT NULL constraint failed: votepackages.vote''
                else if Index (CensusProof v) \<in> set (map indx (votepackages db))
                then EngineError ''UNIQUE constraint failed: votepackages.indx''
                else if MerkleProof (CensusProof v)
                          \<in> set (map (\<lambda>r. Some (merkleproof r)) (votepackages db))
                then EngineError ''UNIQUE constraint failed: votepackages.merkleproof''
                else if PublicKey (CensusProof v)
                          \<in> set (map (\<lambda>r. Some (publicKey r)) (votepackages db))
                then EngineError ''UNIQUE constraint failed: votepackages.publicKey''
                else CanNotStoreVotePackage pid) \<and>
         after db (CallStoreVotePackage True pid v now) = db"
proof -
  have res: "StoreVotePackage db True pid v now =
           Inl (if \<not> (convertible (Index (CensusProof v)) \<and> convertible pid)
                then ConvertError
                else if PublicKey (CensusProof v) = None
                then EngineError ''NOT NULL constraint failed: votepackages.publicKey''
                else if MerkleProof (CensusProof v) = None
                then EngineError ''NOT NULL constraint failed: votepackages.merkleproof''
                else if Vote v = None
                then EngineError ''NOT NULL constraint failed: votepackages.vote''
                else if Index (CensusProof v) \<in> set (map indx (votepackages db))
                then EngineError ''UNIQUE constraint failed: votepackages.indx''
                else if MerkleProof (CensusProof v)
                          \<in> set (map (\<lambda>r. Some (merkleproof r)) (votepackages db))
                then EngineError ''UNIQUE constraint failed: votepackages.merkleproof''
                else if PublicKey (CensusProof v)
                          \<in> set (map (\<lambda>r. Some (publicKey r)) (votepackages db))
                then EngineError ''UNIQUE constraint failed: votepackages.publicKey''
                else CanNotStoreVotePackage pid)"
    using assms
    by (auto simp: StoreVotePackage_def insert_votepackage_def Let_def
          split: option.splits)
  then have "after db (CallStoreVotePackage True pid v now) = db"
    by (simp add: after_def)
  with res show ?thesis by (rule conjI)
qed

theorem StoreVotePackage_no_process_witness:
  "123 \<notin> set (map proc_id (processes migrated))
   \<and> StoreVotePackage migrated True 123 (test_vote 1 [1] [2]) 0
     = Inl (CanNotStoreVotePackage 123)
   \<and> after migrated (CallStoreVotePackage True 123 (test_vote 1 [1] [2]) 0) = migrated"
proof -
  have h: "123 \<notin> set (map proc_id (processes migrated))"
    by (simp add: migrated_def)
  have e: "votepackages migrated = []"
    by (simp add: migrated_def)
  have t: "Index (CensusProof (test_vote 1 [1] [2])) = 1"
    "PublicKey (CensusProof (test_vote 1 [1] [2])) = Some [1]"
    "MerkleProof (CensusProof (test_vote 1 [1] [2])) = Some [2]"
    "Vote (test_vote 1 [1] [2]) = Some [116, 101, 115, 116]"
    by (simp_all add: test_vote_def)
  show ?thesis
    using h StoreVotePackage_no_process [OF h, of "test_vote 1 [1] [2]" 0]
    by (simp add: convertible_def t e)
qed

text \<open>
  The claim as stated fails. After process 123 and a vote package with index 0 are
  stored, appending a package with index 0 again for process 7, which does not exist,
  returns the engine's UNIQUE error, not \<open>CanNotStoreVotePackage\<close>, on a connection
  that enforces foreign keys; and for the process identifier \<open>2 ^ 63\<close> the call returns
  the conversion error.
\<close>

theorem StoreVotePackage_no_process_counterexample:
  "7 \<notin> set (map proc_id (processes
       (history [test_process, CallStoreVotePackage True 123 (test_vote 0 [1] [2]) 0])))
   \<and> StoreVotePackage
       (history [test_process, CallStoreVotePackage True 123 (test_vote 0 [1] [2]) 0])
       True 7 (test_vote 0 [3] [4]) 0
     = Inl (EngineError ''UNIQUE constraint failed: votepackages.indx'')
   \<and> 0x8000000000000000 \<notin> set (map proc_id (processes migrated))
   \<and> StoreVotePackage migrated True 0x8000000000000000 (test_vote 1 [1] [2]) 0
     = Inl ConvertError"
  by (simp add: history_test_vote)
     (simp add: migrated_def convertible_def StoreVotePackage_def insert_votepackage_def
        test_vote_def)

subsection \<open>Duplicates\<close>

text \<open>
  C4 (as amended). No error of the package's own is built for a duplicate: the call
  fails with the driver's or the engine's error, returned as it is, and the database
  stays as it was. \<open>StoreProcess\<close> with a stored identifier returns the engine's "UNIQUE
  constraint failed: processes.id" when the integer arguments are below \<open>2 ^ 63\<close> and
  the census root is not \<open>nil\<close>; before that come the conversion error and the NOT
  NULL error of the census root. \<open>StoreVotePackage\<close> with a stored index, proof or
  public key returns, when the index and the process identifier are below \<open>2 ^ 63\<close>
  and the public key, the proof and the ballot are not \<open>nil\<close>, the engine's UNIQUE
  error of the first stored one in the order \<open>votepackages.indx\<close>,
  \<open>votepackages.merkleproof\<close>, \<open>votepackages.publicKey\<close>; before that come the
  conversion error and the NOT NULL error of the first \<open>nil\<close> among public key, proof
  and ballot. This holds whether or not the connection enforces foreign keys.
\<close>

theorem duplicates_engine_errors:
  "(i \<in> set (map proc_id (processes db)) \<longrightarrow>
      StoreProcess db i cr cs eb rs rw mp mv ty now =
        Inl (if \<not> (convertible i \<and> convertible cs \<and> convertible eb \<and> convertible rs
                    \<and> convertible rw)
             then ConvertError
             else if cr = None
             then EngineError ''NOT NULL constraint failed: processes.censusRoot''
             else EngineError ''UNIQUE constraint failed: processes.id'') \<and>
      after db (CallStoreProcess i cr cs eb rs rw mp mv ty now) = db) \<and>
   (Index (CensusProof v) \<in> set (map indx (votepackages db)) \<or>
    MerkleProof (CensusProof v) \<in> set (map (\<lambda>r. Some (merkleproof r)) (votepackages db)) \<or>
    PublicKey (CensusProof v) \<in> set (map (\<lambda>r. Some (publicKey r)) (votepackages db)) \<longrightarrow>
      StoreVotePackage db fk pid v now =
        Inl (if \<not> (convertible (Index (CensusProof v)) \<and> convertible pid)
             then ConvertError
             else if PublicKey (CensusProof v) = None
             then EngineError ''NOT NULL constraint failed: votepackages.publicKey''
             else if MerkleProof (CensusProof v) = None
             then EngineError ''NOT NULL constraint failed: votepackages.merkleproof''
             else if Vote v = None
             then EngineError ''NOT NULL constraint failed: votepackages.vote''
             else if Index (CensusProof v) \<in> set (map indx (votepackages db))
             then EngineError ''UNIQUE constraint failed: votepackages.indx''
             else if MerkleProof (CensusProof v)
                       \<in> set (map (\<lambda>r. Some (merkleproof r)) (votepackages db))
             then EngineError ''UNIQUE constraint failed: votepackages.merkleproof''
             else EngineError ''UNIQUE constraint failed: votepackages.publicKey'') \<and>
      after db (CallStoreVotePackage fk pid v now) = db)"
proof (intro conjI impI)
  assume "i \<in> set (map proc_id (processes db))"
  then show p: "StoreProcess db i cr cs eb rs rw mp mv ty now =
        Inl (if \<not> (convertible i \<and> convertible cs \<and> convertible eb \<and> convertible rs
                    \<and> convertible rw)
             then ConvertError
             else if cr = None
             then EngineError ''NOT NULL constraint failed: processes.censusRoot''
             else EngineError ''UNIQUE constraint failed: processes.id'')"
    by (auto simp: StoreProcess_def insert_process_def split: option.splits)
  show "after db (CallStoreProcess i cr cs eb rs rw mp mv ty now) = db"
    by (simp add: after_def p)
next
  assume "Index (CensusProof v) \<in> set (map indx (votepackages db)) \<or>
    MerkleProof (CensusProof v) \<in> set (map (\<lambda>r. Some (merkleproof r)) (votepackages db)) \<or>
    PublicKey (CensusProof v) \<in> set (map (\<lambda>r. Some (publicKey r)) (votepackages db))"
  then show q: "StoreVotePackage db fk pid v now =
        Inl (if \<not> (convertible (Index (CensusProof v)) \<and> convertible pid)
             then ConvertError
             else if PublicKey (CensusProof v) = None
             then EngineError ''NOT NULL constraint failed: votepackages.publicKey''
             else if MerkleProof (CensusProof v) = None
             then EngineError ''NOT NULL constraint failed: votepackages.merkleproof''
             else if Vote v = None
             then EngineError ''NOT NULL constraint failed: votepackages.vote''
             else if Index (CensusProof v) \<in> set (map indx (votepackages db))
             then EngineError ''UNIQUE constraint failed: votepackages.indx''
             else if MerkleProof (CensusProof v)
                       \<in> set (map (\<lambda>r. Some (merkleproof r)) (votepackages db))
             then EngineError ''UNIQUE constraint failed: votepackages.merkleproof''
             else EngineError ''UNIQUE constraint failed: votepackages.publicKey'')"
    by (auto simp: StoreVotePackage_def insert_votepackage_def Let_def
          split: option.splits)
  show "after db (CallStoreVotePackage fk pid v now) = db"
    by (simp add: after_def q)
qed

theorem duplicates_engine_errors_witness:
  "StoreProcess (history [test_process, CallStoreVotePackage True 123 (test_vote 0 [1] [2]) 0])
       123 (Some test_censusRoot) 100 10 20 20 60 20 1 0
     = Inl (EngineError ''UNIQUE constraint failed: processes.id'')
   \<and> StoreVotePackage
       (history [test_process, CallStoreVotePackage True 123 (test_vote 0 [1] [2]) 0])
       True 123 (test_vote 0 [3] [4]) 0
     = Inl (EngineError ''UNIQUE constraint failed: votepackages.indx'')
   \<and> StoreVotePackage
       (history [test_process, CallStoreVotePackage True 123 (test_vote 0 [1] [2]) 0])
       True 123 (test_vote 1 [3] [2]) 0
     = Inl (EngineError ''UNIQUE constraint failed: votepackages.merkleproof'')
   \<and> StoreVotePackage
       (history [test_process, CallStoreVotePackage True 123 (test_vote 0 [1] [2]) 0])
       True 123 (test_vote 1 [1] [4]) 0
     = Inl (EngineError ''UNIQUE constraint failed: votepackages.publicKey'')
   \<and> after (history [test_process, CallStoreVotePackage True 123 (test_vote 0 [1] [2]) 0])
       (CallStoreVotePackage True 123 (test_vote 1 [1] [4]) 0)
     = history [test_process, CallStoreVotePackage True 123 (test_vote 0 [1] [2]) 0]
   \<and> StoreProcess (history [test_process, CallStoreVotePackage True 123 (test_vote 0 [1] [2]) 0])
       123 None 100 10 20 20 60 20 1 0
     = Inl (EngineError ''NOT NULL constraint failed: processes.censusRoot'')"
proof -
  let ?db = "history [test_process, CallStoreVotePackage True 123 (test_vote 0 [1] [2]) 0]"
  have c: "convertible 123" "convertible 100" "convertible 10" "convertible 20"
    "convertible 0" "convertible 1"
    by (simp_all add: convertible_def)
  have p: "map proc_id (processes ?db) = [123]"
    by (simp add: history_test_vote)
  have v: "map indx (votepackages ?db) = [0]"
    "map (\<lambda>r. Some (merkleproof r)) (votepackages ?db) = [Some [2]]"
    "map (\<lambda>r. Some (publicKey r)) (votepackages ?db) = [Some [1]]"
    by (simp_all add: history_test_vote)
  have t: "Index (CensusProof (test_vote i pk pr)) = i"
    "MerkleProof (CensusProof (test_vote i pk pr)) = Some pr"
    "PublicKey (CensusProof (test_vote i pk pr)) = Some pk"
    "Vote (test_vote i pk pr) = Some [116, 101, 115, 116]" for i pk pr
    by (simp_all add: test_vote_def)
  show ?thesis
    using duplicates_engine_errors [where i = 123 and db = "?db"
        and v = "test_vote 0 [3] [4]" and pid = 123 and fk = True
        and cr = "Some test_censusRoot" and mp = 60 and mv = 20 and ty = 1 and cs = 100
        and eb = 10 and rs = 20 and rw = 20 and now = 0]
      duplicates_engine_errors [where i = 123 and db = "?db"
        and v = "test_vote 1 [3] [2]" and pid = 123 and fk = True
        and cr = "Some test_censusRoot" and mp = 60 and mv = 20 and ty = 1 and cs = 100
        and eb = 10 and rs = 20 and rw = 20 and now = 0]
      duplicates_engine_errors [where i = 123 and db = "?db"
        and v = "test_vote 1 [1] [4]" and pid = 123 and fk = True
        and cr = "None" and mp = 60 and mv = 20 and ty = 1 and cs = 100
        and eb = 10 and rs = 20 and rw = 20 and now = 0]
    by (simp add: c p v t)
qed

text \<open>
  The claim as stated fails. The error for a stored identifier is the engine's error,
  unchanged; and a package whose public key is stored, and whose index is stored too,
  fails with the engine's error for the index, not with one for the public key.
\<close>

theorem duplicates_engine_errors_counterexample:
  "123 \<in> set (map proc_id (processes (history [test_process,
       CallStoreVotePackage True 123 (test_vote 0 [1] [2]) 0])))
   \<and> StoreProcess (history [test_process, CallStoreVotePackage True 123 (test_vote 0 [1] [2]) 0])
       123 (Some test_censusRoot) 100 10 20 20 60 20 1 0
     = Inl (EngineError ''UNIQUE constraint failed: processes.id'')
   \<and> PublicKey (CensusProof (test_vote 0 [1] [4]))
       \<in> set (map (\<lambda>r. Some (publicKey r)) (votepackages
           (history [test_process, CallStoreVotePackage True 123 (test_vote 0 [1] [2]) 0])))
   \<and> StoreVotePackage
       (history [test_process, CallStoreVotePackage True 123 (test_vote 0 [1] [2]) 0])
       True 123 (test_vote 0 [1] [4]) 0
     = Inl (EngineError ''UNIQUE constraint failed: votepackages.indx'')"
  by (simp add: history_test_vote)
     (simp add: StoreProcess_def insert_process_def StoreVotePackage_def
        insert_votepackage_def test_vote_def convertible_def)

subsection \<open>The invariant of the tables\<close>

lemma wf_migrated: "wf migrated"
  by (simp add: wf_def migrated_def)

lemma map_proc_id_status:
  "map proc_id (map (\<lambda>p. if c p then p\<lparr>status := s\<rparr> else p) ps) = map proc_id ps"
  by (induction ps) auto

lemma list_all_nonneg_status:
  "list_all (\<lambda>p. 0 \<le> sint (proc_id p) \<and> 0 \<le> sint (resPubStartBlock p))
     (map (\<lambda>p. if c p then p\<lparr>status := s\<rparr> else p) ps)
   = list_all (\<lambda>p. 0 \<le> sint (proc_id p) \<and> 0 \<le> sint (resPubStartBlock p)) ps"
  by (induction ps) auto

lemma wf_StoreProcess:
  assumes "wf db" and "StoreProcess db i cr cs eb rs rw mp mv ty now = Inr db'"
  shows "wf db'"
proof -
  from assms(2) have new: "i \<notin> set (map proc_id (processes db))"
    and conv: "0 \<le> sint i" "0 \<le> sint rs"
    and db': "\<exists>p. processes db' = processes db @ [p] \<and> proc_id p = i \<and>
                 resPubStartBlock p = rs"
      "votepackages db' = votepackages db"
    by (auto dest!: StoreProcess_Inr simp: convertible_iff_sint)
  with assms(1) show ?thesis
    by (auto simp: wf_def)
qed

lemma wf_status_map:
  "wf db \<Longrightarrow>
     wf (db\<lparr>processes := map (\<lambda>p. if c p then p\<lparr>status := s\<rparr> else p) (processes db)\<rparr>)"
  unfolding wf_def
  by (simp add: map_proc_id_status list_all_nonneg_status del: map_map)

lemma wf_UpdateProcessStatus:
  "wf db \<Longrightarrow> UpdateProcessStatus db i s = Inr db' \<Longrightarrow> wf db'"
  by (auto simp: UpdateProcessStatus_def wf_status_map split: if_splits)

lemma wf_FrozeProcessesByCurrentBlockNum:
  "wf db \<Longrightarrow> FrozeProcessesByCurrentBlockNum db b = Inr db' \<Longrightarrow> wf db'"
  by (auto simp: FrozeProcessesByCurrentBlockNum_def wf_status_map)

lemma wf_StoreVotePackage:
  assumes "wf db" and "StoreVotePackage db fk pid v now = Inr db'"
  shows "wf db'"
proof -
  from assms(2) have "0 \<le> sint (Index (CensusProof v))"
    and "Index (CensusProof v) \<notin> set (map indx (votepackages db))"
    and "processes db' = processes db"
    and "\<exists>r. votepackages db' = votepackages db @ [r] \<and> indx r = Index (CensusProof v)"
    by (auto dest!: StoreVotePackage_Inr simp: convertible_iff_sint)
  with assms(1) show ?thesis
    by (auto simp: wf_def)
qed

lemma wf_after: "wf db \<Longrightarrow> wf (after db c)"
proof (cases c)
  case (CallStoreProcess i cr cs eb rs rw mp mv ty now)
  assume "wf db"
  then show ?thesis
    unfolding CallStoreProcess
    by (auto simp: after_def split: sum.splits intro: wf_StoreProcess)
next
  case (CallUpdateProcessStatus i s)
  assume "wf db"
  then show ?thesis
    unfolding CallUpdateProcessStatus
    by (auto simp: after_def split: sum.splits intro: wf_UpdateProcessStatus)
next
  case (CallFrozeProcessesByCurrentBlockNum b)
  assume "wf db"
  then show ?thesis
    unfolding CallFrozeProcessesByCurrentBlockNum
    by (auto simp: after_def split: sum.splits intro: wf_FrozeProcessesByCurrentBlockNum)
next
  case (CallStoreVotePackage fk pid v now)
  assume "wf db"
  then show ?thesis
    unfolding CallStoreVotePackage
    by (auto simp: after_def split: sum.splits intro: wf_StoreVotePackage)
next
  case (CallInitMeta x n now)
  assume "wf db"
  then show ?thesis
    unfolding CallInitMeta
    by (auto simp: after_def wf_def InitMeta_def split: sum.splits)
next
  case (CallUpdateLastSyncBlockNum n)
  assume "wf db"
  then show ?thesis
    unfolding CallUpdateLastSyncBlockNum
    by (auto simp: after_def wf_def UpdateLastSyncBlockNum_def split: sum.splits)
qed

lemma wf_foldl_after: "wf db \<Longrightarrow> wf (foldl after db cs)"
  by (induction cs arbitrary: db) (simp_all add: wf_after)

lemma wf_history: "wf (history cs)"
  by (simp add: history_def wf_foldl_after wf_migrated)

lemma references_kept_status_map:
  "references_kept db \<Longrightarrow>
     references_kept
       (db\<lparr>processes := map (\<lambda>p. if c p then p\<lparr>status := s\<rparr> else p) (processes db)\<rparr>)"
  unfolding references_kept_def
  by (simp add: map_proc_id_status del: map_map)

lemma references_kept_after:
  assumes "references_kept db" and "enforcing c"
  shows "references_kept (after db c)"
proof (cases c)
  case (CallStoreProcess i cr cs eb rs rw mp mv ty now)
  show ?thesis
  proof (cases "StoreProcess db i cr cs eb rs rw mp mv ty now")
    case (Inl e)
    with assms(1) show ?thesis by (simp add: after_def CallStoreProcess)
  next
    case (Inr db')
    then have "\<exists>p. processes db' = processes db @ [p]" "votepackages db' = votepackages db"
      by (auto dest!: StoreProcess_Inr)
    with assms(1) have "references_kept db'"
      by (auto simp: references_kept_def list_all_iff)
    with Inr show ?thesis by (simp add: after_def CallStoreProcess)
  qed
next
  case (CallUpdateProcessStatus i s)
  with assms(1) show ?thesis
    by (simp add: after_def UpdateProcessStatus_def references_kept_status_map)
next
  case (CallFrozeProcessesByCurrentBlockNum b)
  with assms(1) show ?thesis
    by (simp add: after_def FrozeProcessesByCurrentBlockNum_def references_kept_status_map)
next
  case (CallStoreVotePackage fk pid v now)
  show ?thesis
  proof (cases "StoreVotePackage db fk pid v now")
    case (Inl e)
    with assms(1) show ?thesis by (simp add: after_def CallStoreVotePackage)
  next
    case (Inr db')
    from assms(2) have "fk" by (simp add: CallStoreVotePackage)
    with Inr have "pid \<in> set (map proc_id (processes db))"
      and "processes db' = processes db"
      and "\<exists>r. votepackages db' = votepackages db @ [r] \<and> processID r = pid"
      by (auto dest!: StoreVotePackage_Inr)
    with assms(1) have "references_kept db'"
      by (auto simp: references_kept_def)
    with Inr show ?thesis by (simp add: after_def CallStoreVotePackage)
  qed
next
  case (CallInitMeta x n now)
  with assms(1) show ?thesis
    by (simp add: after_def InitMeta_def references_kept_def)
next
  case (CallUpdateLastSyncBlockNum n)
  with assms(1) show ?thesis
    by (simp add: after_def UpdateLastSyncBlockNum_def references_kept_def)
qed

lemma references_kept_foldl_after:
  "references_kept db \<Longrightarrow> list_all enforcing cs \<Longrightarrow> references_kept (foldl after db cs)"
  by (induction cs arbitrary: db) (simp_all add: references_kept_after)

lemma references_kept_history:
  assumes "list_all enforcing cs"
  shows "references_kept (history cs)"
proof -
  have "references_kept migrated"
    by (simp add: references_kept_def migrated_def)
  then show ?thesis
    unfolding history_def using assms by (rule references_kept_foldl_after)
qed

subsection \<open>Reading the vote packages of a process\<close>

lemma unat_byte_of_nat: "unat (of_nat (n mod 256) :: 8 word) = n mod 256"
  by (simp add: unat_of_nat)

lemma foldl_bytes_nat_bytes: "foldl (\<lambda>a b. a * 256 + unat b) 0 (nat_bytes n) = n"
proof (induction n rule: nat_bytes.induct)
  case (1 n)
  show ?case
  proof (cases "n = 0")
    case True
    then show ?thesis by (simp add: nat_bytes.simps)
  next
    case False
    with 1 have "foldl (\<lambda>a b. a * 256 + unat b) 0 (nat_bytes (n div 256)) = n div 256"
      by simp
    with False show ?thesis
      by (subst nat_bytes.simps) (simp add: unat_byte_of_nat)
  qed
qed

lemma SetBytes_Bytes: "SetBytes (Bytes x) = \<bar>x\<bar>"
  by (simp add: SetBytes_def Bytes_def foldl_bytes_nat_bytes)

lemma scan_votes_nonneg:
  "list_all (\<lambda>r. 0 \<le> sint (indx r)) rs \<Longrightarrow> scan_votes rs = Inr (map vote_of_row rs)"
  by (induction rs) (simp_all add: scan_vote_def)

lemma ReadVotePackagesByProcessID_wf:
  assumes "wf db" and "convertible pid"
  shows "ReadVotePackagesByProcessID db pid =
     Inr (map vote_of_row (sort_key (\<lambda>r. sint (indx r))
            (filter (\<lambda>r. processID r = pid) (votepackages db))))"
proof -
  from assms(1) have "list_all (\<lambda>r. 0 \<le> sint (indx r)) (votepackages db)"
    by (simp add: wf_def list_all_iff)
  then have "list_all (\<lambda>r. 0 \<le> sint (indx r))
      (sort_key (\<lambda>r. sint (indx r)) (filter (\<lambda>r. processID r = pid) (votepackages db)))"
    by (simp add: list_all_iff)
  then show ?thesis
    using assms(2) by (simp add: ReadVotePackagesByProcessID_def scan_votes_nonneg)
qed


text \<open>
  A stored package is read back as it was when its signature fills the 64-byte array and
  its weight is set and not negative.
\<close>

lemma vote_of_row_stored:
  assumes "length (Signature v) = 64" and "Weight (CensusProof v) = Some w" and "0 \<le> w"
    and "PublicKey (CensusProof v) = Some pk" and "MerkleProof (CensusProof v) = Some mp"
    and "Vote v = Some vt"
  shows "vote_of_row
           \<lparr>indx = Index (CensusProof v), publicKey = pk,
            weight = Bytes w, merkleproof = mp,
            signature = Signature v, vote = vt, vp_insertedDatetime = now,
            processID = pid\<rparr> = v"
  using assms by (simp add: vote_of_row_def go_uint64_def SetBytes_Bytes)



lemma SetBytes_Nil: "SetBytes [] = 0"
  by (simp add: SetBytes_def)




subsection \<open>The weight of a vote package\<close>

text \<open>
  C9. A vote package without weight, once stored, has the weight bytes of zero in its
  row, and \<open>ReadVotePackagesByProcessID\<close> of its process returns it with weight zero:
  the package itself with \<open>Weight = Some 0\<close> (and its signature as the 64-byte array
  holds it).
\<close>

theorem nil_weight_round_trip:
  assumes "Weight (CensusProof v) = None"
    and "StoreVotePackage (history cs) fk pid v now = Inr db'"
  shows "(\<exists>r. votepackages db' = votepackages (history cs) @ [r] \<and>
              indx r = Index (CensusProof v) \<and> weight r = Bytes 0 \<and> SetBytes (weight r) = 0) \<and>
         (\<exists>vs. ReadVotePackagesByProcessID db' pid = Inr vs \<and>
            v\<lparr>Signature := take 64 (Signature v) @ replicate (64 - length (Signature v)) 0,
              CensusProof := (CensusProof v)\<lparr>Weight := Some 0\<rparr>\<rparr> \<in> set vs)"
proof -
  from assms obtain pk mp vt where conv: "convertible pid"
    and some: "PublicKey (CensusProof v) = Some pk" "MerkleProof (CensusProof v) = Some mp"
      "Vote v = Some vt"
    and db': "votepackages db' = votepackages (history cs) @
      [\<lparr>indx = Index (CensusProof v), publicKey = pk,
             weight = Bytes 0, merkleproof = mp,
             signature = Signature v, vote = vt, vp_insertedDatetime = now,
             processID = pid\<rparr>]"
    by (auto dest!: StoreVotePackage_Inr)
  let ?r = "\<lparr>indx = Index (CensusProof v), publicKey = pk,
             weight = Bytes 0, merkleproof = mp,
             signature = Signature v, vote = vt, vp_insertedDatetime = now,
             processID = pid\<rparr>"
  have "wf db'"
    using wf_history assms(2) by (rule wf_StoreVotePackage)
  then have "ReadVotePackagesByProcessID db' pid =
     Inr (map vote_of_row (sort_key (\<lambda>r. sint (indx r))
            (filter (\<lambda>r. processID r = pid) (votepackages db'))))"
    using conv by (rule ReadVotePackagesByProcessID_wf)
  moreover have "vote_of_row ?r \<in> set (map vote_of_row (sort_key (\<lambda>r. sint (indx r))
            (filter (\<lambda>r. processID r = pid) (votepackages db'))))"
    by (simp add: db')
  moreover have "vote_of_row ?r =
      v\<lparr>Signature := take 64 (Signature v) @ replicate (64 - length (Signature v)) 0,
        CensusProof := (CensusProof v)\<lparr>Weight := Some 0\<rparr>\<rparr>"
    using some by (simp add: vote_of_row_def go_uint64_def SetBytes_Bytes)
  ultimately have "\<exists>vs. ReadVotePackagesByProcessID db' pid = Inr vs \<and>
            v\<lparr>Signature := take 64 (Signature v) @ replicate (64 - length (Signature v)) 0,
              CensusProof := (CensusProof v)\<lparr>Weight := Some 0\<rparr>\<rparr> \<in> set vs"
    by (simp only:) blast
  moreover have "\<exists>r. votepackages db' = votepackages (history cs) @ [r] \<and>
              indx r = Index (CensusProof v) \<and> weight r = Bytes 0 \<and> SetBytes (weight r) = 0"
    using db' by (simp add: SetBytes_Bytes)
  ultimately show ?thesis by blast
qed

theorem nil_weight_round_trip_witness:
  "Weight (CensusProof (test_vote 0 [1] [2]\<lparr>CensusProof :=
       \<lparr>Index = 0, PublicKey = Some [1], Weight = None, MerkleProof = Some [2]\<rparr>\<rparr>)) = None
   \<and> StoreVotePackage (history [test_process]) True 123
       (test_vote 0 [1] [2]\<lparr>CensusProof :=
          \<lparr>Index = 0, PublicKey = Some [1], Weight = None, MerkleProof = Some [2]\<rparr>\<rparr>) 0
     = Inr (history [test_process, CallStoreVotePackage True 123
       (test_vote 0 [1] [2]\<lparr>CensusProof :=
          \<lparr>Index = 0, PublicKey = Some [1], Weight = None, MerkleProof = Some [2]\<rparr>\<rparr>) 0])
   \<and> (\<exists>vs. ReadVotePackagesByProcessID (history [test_process, CallStoreVotePackage True 123
       (test_vote 0 [1] [2]\<lparr>CensusProof :=
          \<lparr>Index = 0, PublicKey = Some [1], Weight = None, MerkleProof = Some [2]\<rparr>\<rparr>) 0]) 123 = Inr vs
        \<and> test_vote 0 [1] [2]\<lparr>CensusProof :=
          \<lparr>Index = 0, PublicKey = Some [1], Weight = Some 0, MerkleProof = Some [2]\<rparr>\<rparr> \<in> set vs)"
proof -
  let ?v = "test_vote 0 [1] [2]\<lparr>CensusProof :=
          \<lparr>Index = 0, PublicKey = Some [1], Weight = None, MerkleProof = Some [2]\<rparr>\<rparr>"
  have w: "Weight (CensusProof ?v) = None"
    by simp
  have "\<exists>db'. StoreVotePackage (history [test_process]) True 123 ?v 0 = Inr db'"
    by (rule StoreVotePackage_succeeds [where pk = "[1]" and mp = "[2]"
          and vt = "[116, 101, 115, 116]"])
       (simp_all add: history_test_process convertible_def test_vote_def)
  then have s: "StoreVotePackage (history [test_process]) True 123 ?v 0
      = Inr (history [test_process, CallStoreVotePackage True 123 ?v 0])"
    by (auto simp: history_def after_def)
  have v: "?v\<lparr>Signature := take 64 (Signature ?v) @ replicate (64 - length (Signature ?v)) 0,
              CensusProof := (CensusProof ?v)\<lparr>Weight := Some 0\<rparr>\<rparr>
      = test_vote 0 [1] [2]\<lparr>CensusProof :=
          \<lparr>Index = 0, PublicKey = Some [1], Weight = Some 0, MerkleProof = Some [2]\<rparr>\<rparr>"
    by (simp add: test_vote_def)
  from nil_weight_round_trip [OF w s]
  have "\<exists>vs. ReadVotePackagesByProcessID
          (history [test_process, CallStoreVotePackage True 123 ?v 0]) 123 = Inr vs \<and>
        ?v\<lparr>Signature := take 64 (Signature ?v) @ replicate (64 - length (Signature ?v)) 0,
              CensusProof := (CensusProof ?v)\<lparr>Weight := Some 0\<rparr>\<rparr> \<in> set vs"
    by (rule conjunct2)
  then have "\<exists>vs. ReadVotePackagesByProcessID
          (history [test_process, CallStoreVotePackage True 123 ?v 0]) 123 = Inr vs \<and>
        test_vote 0 [1] [2]\<lparr>CensusProof :=
          \<lparr>Index = 0, PublicKey = Some [1], Weight = Some 0, MerkleProof = Some [2]\<rparr>\<rparr> \<in> set vs"
    by (simp only: v)
  with w s show ?thesis by blast
qed

subsection \<open>Reading when nothing is stored\<close>

lemma no_process_no_votes:
  assumes "references_kept db" and "pid \<notin> set (map proc_id (processes db))"
  shows "pid \<notin> set (map processID (votepackages db))"
  using assms by (auto simp: references_kept_def list_all_iff)

text \<open>
  Where foreign keys were not enforced, a vote package can point to no process: after
  the insert of the test's package on such a connection, process 123 does not exist and
  has one vote package.
\<close>

lemma ReadVotePackagesByProcessID_orphan:
  "123 \<notin> set (map proc_id (processes
       (history [CallStoreVotePackage False 123 (test_vote 1 [1] [2]) 0])))
   \<and> ReadVotePackagesByProcessID
       (history [CallStoreVotePackage False 123 (test_vote 1 [1] [2]) 0]) 123
     = Inr [test_vote 1 [1] [2]]"
proof -
  have "history [CallStoreVotePackage False 123 (test_vote 1 [1] [2]) 0] =
     migrated\<lparr>votepackages :=
            [\<lparr>indx = 1, publicKey = [1], weight = [1], merkleproof = [2],
              signature = replicate 64 0, vote = [116, 101, 115, 116],
              vp_insertedDatetime = 0, processID = 123\<rparr>]\<rparr>"
    by (simp add: history_def after_def StoreVotePackage_not_enforced)
  then show ?thesis
    by (simp add: migrated_def ReadVotePackagesByProcessID_def convertible_def scan_vote_def
          vote_of_row_def test_vote_def go_uint64_def SetBytes_def)
qed

text \<open>
  C10 (as amended). When no stored vote package has the process identifier \<open>pid\<close>,
  \<open>ReadVotePackagesByProcessID\<close> returns the empty list and no error if \<open>pid\<close> is
  below \<open>2 ^ 63\<close>, and the conversion error otherwise; and so it does for an
  identifier that no process has, in every database the package can build with its
  vote packages inserted on connections that enforce foreign keys.
\<close>

theorem ReadVotePackagesByProcessID_none:
  "(pid \<notin> set (map processID (votepackages db)) \<longrightarrow>
      ReadVotePackagesByProcessID db pid =
        (if convertible pid then Inr [] else Inl ConvertError)) \<and>
   (list_all enforcing cs \<and> pid \<notin> set (map proc_id (processes (history cs))) \<longrightarrow>
      ReadVotePackagesByProcessID (history cs) pid =
        (if convertible pid then Inr [] else Inl ConvertError))"
proof -
  have none: "ReadVotePackagesByProcessID d pid =
      (if convertible pid then Inr [] else Inl ConvertError)"
    if "pid \<notin> set (map processID (votepackages d))" for d
  proof -
    from that have "filter (\<lambda>r. processID r = pid) (votepackages d) = []"
      by (auto simp: filter_empty_conv)
    then show ?thesis
      by (simp add: ReadVotePackagesByProcessID_def)
  qed
  have "pid \<notin> set (map processID (votepackages (history cs)))"
    if "list_all enforcing cs" "pid \<notin> set (map proc_id (processes (history cs)))"
    using references_kept_history [OF that(1)] that(2) by (rule no_process_no_votes)
  with none show ?thesis by blast
qed

theorem ReadVotePackagesByProcessID_none_witness:
  "7 \<notin> set (map proc_id (processes (history [test_process,
       CallStoreVotePackage True 123 (test_vote 0 [1] [2]) 0])))
   \<and> 7 \<notin> set (map processID (votepackages (history [test_process,
       CallStoreVotePackage True 123 (test_vote 0 [1] [2]) 0])))
   \<and> ReadVotePackagesByProcessID (history [test_process,
       CallStoreVotePackage True 123 (test_vote 0 [1] [2]) 0]) 7 = Inr []"
proof -
  let ?cs = "[test_process, CallStoreVotePackage True 123 (test_vote 0 [1] [2]) 0]"
  have p: "7 \<notin> set (map proc_id (processes (history ?cs)))"
    by (simp add: history_test_vote)
  have h: "7 \<notin> set (map processID (votepackages (history ?cs)))"
    by (simp add: history_test_vote)
  have c: "convertible 7"
    by (simp add: convertible_def)
  have e: "list_all enforcing ?cs"
    by (simp add: test_process_def)
  show ?thesis
    using p h c e ReadVotePackagesByProcessID_none [of 7 "history ?cs" ?cs] by simp
qed

text \<open>
  The claim as stated fails: no vote package and no process has the identifier
  \<open>2 ^ 63\<close>, and reading its vote packages returns an error.
\<close>

theorem ReadVotePackagesByProcessID_none_counterexample:
  "0x8000000000000000 \<notin> set (map processID (votepackages migrated))
   \<and> 0x8000000000000000 \<notin> set (map proc_id (processes migrated))
   \<and> ReadVotePackagesByProcessID migrated 0x8000000000000000 = Inl ConvertError"
  by (simp add: ReadVotePackagesByProcessID_def migrated_def convertible_def)

end
